theory Spec2Isabelle
  imports Main "HOL-Library.Word"
begin

unbundle bit_operations_syntax

section \<open>Error code enumerations\<close>

text \<open>
  \<open>quic/QuicException.cpp\<close> renders three code spaces. \<open>LocalErrorCode\<close> and
  \<open>TransportErrorCode\<close> are scoped enumerations over an unsigned integer type: a value of
  such a type is any value of the underlying type (codes read from the wire are cast into
  it), and an enumerator is a name for one of them. A code is therefore a machine word,
  and the enumerators are a datatype of names together with a table giving each name its
  value.

  The enumerations are declared in \<open>quic/QuicConstants.h\<close>, which is not among the sources:
  the width of the underlying type is a type parameter and the table of enumerator values
  is a parameter of every renderer. A C++ \<open>switch\<close> cannot carry the same value on two
  labels, so the tables the program can be built with are injective.
\<close>

type_synonym 'l LocalErrorCode = "'l word"
type_synonym 'a TransportErrorCode = "'a word"
type_synonym 'p ApplicationErrorCode = "'p word"

datatype LocalErrorName =
    Local_NO_ERROR
  | Local_CONNECT_FAILED
  | Local_CODEC_ERROR
  | Local_STREAM_CLOSED
  | Local_STREAM_NOT_EXISTS
  | Local_CREATING_EXISTING_STREAM
  | Local_SHUTTING_DOWN
  | Local_RESET_CRYPTO_STREAM
  | Local_CWND_OVERFLOW
  | Local_INFLIGHT_BYTES_OVERFLOW
  | Local_LOST_BYTES_OVERFLOW
  | Local_NEW_VERSION_NEGOTIATED
  | Local_INVALID_WRITE_CALLBACK
  | Local_CALLBACK_ALREADY_INSTALLED
  | Local_TLS_HANDSHAKE_FAILED
  | Local_APP_ERROR
  | Local_INTERNAL_ERROR
  | Local_TRANSPORT_ERROR
  | Local_INVALID_WRITE_DATA
  | Local_INVALID_STATE_TRANSITION
  | Local_CONNECTION_CLOSED
  | Local_EARLY_DATA_REJECTED
  | Local_CONNECTION_RESET
  | Local_IDLE_TIMEOUT
  | Local_PACKET_NUMBER_ENCODING
  | Local_INVALID_OPERATION
  | Local_STREAM_LIMIT_EXCEEDED
  | Local_CONNECTION_ABANDONED
  | Local_KNOB_FRAME_UNSUPPORTED

datatype TransportErrorName =
    Transport_NO_ERROR
  | Transport_INTERNAL_ERROR
  | Transport_FLOW_CONTROL_ERROR
  | Transport_STREAM_LIMIT_ERROR
  | Transport_STREAM_STATE_ERROR
  | Transport_FINAL_SIZE_ERROR
  | Transport_FRAME_ENCODING_ERROR
  | Transport_TRANSPORT_PARAMETER_ERROR
  | Transport_PROTOCOL_VIOLATION
  | Transport_INVALID_MIGRATION
  | Transport_SERVER_BUSY
  | Transport_INVALID_TOKEN
  | Transport_CRYPTO_ERROR
  | Transport_CRYPTO_ERROR_MAX

section \<open>The switch statement and the log\<close>

text \<open>
  \<open>switch (code) { case E1: ... case En: ... }\<close> over an enumeration with value table
  \<open>val\<close>: the arm of the first label whose value is the code, or \<open>None\<close> when control
  leaves the switch without a label having matched.
\<close>

fun switch :: "('n \<Rightarrow> 'w word) \<Rightarrow> ('n \<times> 'r) list \<Rightarrow> 'w word \<Rightarrow> 'r option" where
  "switch val [] code = None"
| "switch val ((label, arm) # cases) code =
     (if code = val label then Some arm else switch val cases code)"

text \<open>
  The only effect of the renderers is \<open>LOG(WARNING) << ...\<close>. A renderer returns its
  string together with the warnings it logged, in order.
\<close>

type_synonym 'r logged = "'r \<times> string list"

definition unhandled :: string where
  "unhandled = ''toString has unhandled ErrorCode''"

section \<open>Rendering a local code\<close>

text \<open>The labels of \<open>toString(LocalErrorCode)\<close> with the literal each returns, in order.\<close>

definition local_cases :: "(LocalErrorName \<times> string) list" where
  "local_cases =
    [(Local_NO_ERROR, ''No Error''),
     (Local_CONNECT_FAILED, ''Connect failed''),
     (Local_CODEC_ERROR, ''Codec Error''),
     (Local_STREAM_CLOSED, ''Stream is closed''),
     (Local_STREAM_NOT_EXISTS, ''Stream does not exist''),
     (Local_CREATING_EXISTING_STREAM, ''Creating an existing stream''),
     (Local_SHUTTING_DOWN, ''Shutting down''),
     (Local_RESET_CRYPTO_STREAM, ''Reset the crypto stream''),
     (Local_CWND_OVERFLOW, ''CWND overflow''),
     (Local_INFLIGHT_BYTES_OVERFLOW, ''Inflight bytes overflow''),
     (Local_LOST_BYTES_OVERFLOW, ''Lost bytes overflow''),
     (Local_NEW_VERSION_NEGOTIATED, ''New version negotiatied''),
     (Local_INVALID_WRITE_CALLBACK, ''Invalid write callback''),
     (Local_CALLBACK_ALREADY_INSTALLED, ''Callback already installed''),
     (Local_TLS_HANDSHAKE_FAILED, ''TLS handshake failed''),
     (Local_APP_ERROR, ''App error''),
     (Local_INTERNAL_ERROR, ''Internal error''),
     (Local_TRANSPORT_ERROR, ''Transport error''),
     (Local_INVALID_WRITE_DATA, ''Invalid write data''),
     (Local_INVALID_STATE_TRANSITION, ''Invalid state transition''),
     (Local_CONNECTION_CLOSED, ''Connection closed''),
     (Local_EARLY_DATA_REJECTED, ''Early data rejected''),
     (Local_CONNECTION_RESET, ''Connection reset''),
     (Local_IDLE_TIMEOUT, ''Idle timeout''),
     (Local_PACKET_NUMBER_ENCODING, ''Packet number encoding''),
     (Local_INVALID_OPERATION, ''Invalid operation''),
     (Local_STREAM_LIMIT_EXCEEDED, ''Stream limit exceeded''),
     (Local_CONNECTION_ABANDONED, ''Connection abandoned''),
     (Local_KNOB_FRAME_UNSUPPORTED, ''Knob Frame Not Supported'')]"

definition toString_Local ::
  "(LocalErrorName \<Rightarrow> 'l word) \<Rightarrow> 'l LocalErrorCode \<Rightarrow> string logged" where
  "toString_Local lval code =
     (case switch lval local_cases code of
        Some literal \<Rightarrow> (literal, [])
      | None \<Rightarrow> (''Unknown error'', [unhandled]))"

section \<open>Rendering a transport code\<close>

text \<open>
  \<open>cryptoErrorToString\<close>: the code minus the \<open>CRYPTO_ERROR\<close> base, handed to the
  handshake layer's renderer. That renderer (\<open>fizz::toString(fizz::AlertDescription)\<close>)
  belongs to another library: \<open>alertToString\<close> stands for the cast
  \<open>static_cast<fizz::AlertDescription>(alertDescNum)\<close> followed by it. The subtraction is
  unsigned arithmetic of the underlying type and wraps around; were that type narrower
  than \<open>int\<close>, the difference would be taken in \<open>int\<close> and the cast to the unsigned
  alert type would reduce it, which gives the same alert as reducing the wrapped word.
\<close>

definition cryptoErrorToString ::
  "(TransportErrorName \<Rightarrow> 'a::len word) \<Rightarrow> ('a word \<Rightarrow> string) \<Rightarrow> 'a TransportErrorCode
     \<Rightarrow> string" where
  "cryptoErrorToString tval alertToString code =
     (let codeVal = code;
          alertDescNum = codeVal - tval Transport_CRYPTO_ERROR
      in ''Crypto error: '' @ alertToString alertDescNum)"

text \<open>
  An arm of the switch of \<open>toString(TransportErrorCode)\<close> returns a literal or
  \<open>cryptoErrorToString(code)\<close>.
\<close>

datatype transport_arm = Literal string | CryptoError

definition transport_cases :: "(TransportErrorName \<times> transport_arm) list" where
  "transport_cases =
    [(Transport_NO_ERROR, Literal ''No Error''),
     (Transport_INTERNAL_ERROR, Literal ''Internal Error''),
     (Transport_FLOW_CONTROL_ERROR, Literal ''Flow control error''),
     (Transport_STREAM_LIMIT_ERROR, Literal ''Stream limit error''),
     (Transport_STREAM_STATE_ERROR, Literal ''Stream State error''),
     (Transport_FINAL_SIZE_ERROR, Literal ''Final offset error''),
     (Transport_FRAME_ENCODING_ERROR, Literal ''Frame format error''),
     (Transport_TRANSPORT_PARAMETER_ERROR, Literal ''Transport parameter error''),
     (Transport_PROTOCOL_VIOLATION, Literal ''Protocol violation''),
     (Transport_INVALID_MIGRATION, Literal ''Invalid migration''),
     (Transport_SERVER_BUSY, Literal ''Server busy''),
     (Transport_INVALID_TOKEN, Literal ''Invalid token''),
     (Transport_CRYPTO_ERROR, CryptoError),
     (Transport_CRYPTO_ERROR_MAX, CryptoError)]"

definition toString_Transport ::
  "(TransportErrorName \<Rightarrow> 'a::len word) \<Rightarrow> ('a word \<Rightarrow> string) \<Rightarrow> 'a TransportErrorCode
     \<Rightarrow> string logged" where
  "toString_Transport tval alertToString code =
     (case switch tval transport_cases code of
        Some (Literal literal) \<Rightarrow> (literal, [])
      | Some CryptoError \<Rightarrow> (cryptoErrorToString tval alertToString code, [])
      | None \<Rightarrow>
          (let codeVal = code in
           if (codeVal AND tval Transport_CRYPTO_ERROR_MAX) = codeVal
           then (cryptoErrorToString tval alertToString code, [])
           else (''Unknown error'', [unhandled])))"

section \<open>The unified error code\<close>

text \<open>
  Modelled from the spec: the unified error code and its operations, declared in
  \<open>quic/QuicException.h\<close>, which is not among the sources: "a tagged union over exactly
  one of the three enumerations", with the operations "construct from any one of the
  three code kinds; query active kind; attempt-extract each kind (yields
  present/absent)". The type parameters are the three code types. The source names the
  kinds \<open>ApplicationErrorCode_E\<close>, \<open>LocalErrorCode_E\<close> and \<open>TransportErrorCode_E\<close>, the
  query \<open>type()\<close> and the accessors \<open>asApplicationErrorCode()\<close>, \<open>asLocalErrorCode()\<close> and
  \<open>asTransportErrorCode()\<close>.
\<close>

datatype ('p, 'l, 'a) QuicErrorCode =
    OfApplicationErrorCode 'p
  | OfLocalErrorCode 'l
  | OfTransportErrorCode 'a

datatype QuicErrorCode_Type = ApplicationErrorCode_E | LocalErrorCode_E | TransportErrorCode_E

fun type_of :: "('p, 'l, 'a) QuicErrorCode \<Rightarrow> QuicErrorCode_Type" where
  "type_of (OfApplicationErrorCode c) = ApplicationErrorCode_E"
| "type_of (OfLocalErrorCode c) = LocalErrorCode_E"
| "type_of (OfTransportErrorCode c) = TransportErrorCode_E"

fun asApplicationErrorCode :: "('p, 'l, 'a) QuicErrorCode \<Rightarrow> 'p option" where
  "asApplicationErrorCode (OfApplicationErrorCode c) = Some c"
| "asApplicationErrorCode _ = None"

fun asLocalErrorCode :: "('p, 'l, 'a) QuicErrorCode \<Rightarrow> 'l option" where
  "asLocalErrorCode (OfLocalErrorCode c) = Some c"
| "asLocalErrorCode _ = None"

fun asTransportErrorCode :: "('p, 'l, 'a) QuicErrorCode \<Rightarrow> 'a option" where
  "asTransportErrorCode (OfTransportErrorCode c) = Some c"
| "asTransportErrorCode _ = None"

text \<open>
  \<open>folly::to<std::string>\<close> of an unsigned integer (a library function): its decimal
  digits, most significant first, with no leading zero.
\<close>

definition digit :: "nat \<Rightarrow> char" where
  "digit d = ''0123456789'' ! d"

function decimal :: "nat \<Rightarrow> string" where
  "decimal n = (if n < 10 then [digit n] else decimal (n div 10) @ [digit (n mod 10)])"
  by pat_completeness auto
termination
  by (relation "measure id") auto

declare decimal.simps [simp del]

text \<open>The number a digit character stands for, to read a decimal string back.\<close>

definition digit_value :: "char \<Rightarrow> nat" where
  "digit_value c = of_char c - 48"

text \<open>
  \<open>toString(QuicErrorCode)\<close>. In the arm for a kind, \<open>*code.asK()\<close> is the payload of
  that kind, so the switch on \<open>code.type()\<close> is a case distinction on the constructor.
  \<open>no_error\<close> is the value of \<open>GenericApplicationErrorCode::NO_ERROR\<close>, declared
  outside the sources.
\<close>

definition toString_QuicErrorCode ::
  "'p word \<Rightarrow> (LocalErrorName \<Rightarrow> 'l word) \<Rightarrow> (TransportErrorName \<Rightarrow> 'a word)
     \<Rightarrow> ('a word \<Rightarrow> string)
     \<Rightarrow> ('p::len word, 'l::len word, 'a::len word) QuicErrorCode \<Rightarrow> string logged" where
  "toString_QuicErrorCode no_error lval tval alertToString code =
     (case code of
        OfApplicationErrorCode c \<Rightarrow>
          if c = no_error then (''No Error'', []) else (decimal (unat c), [])
      | OfLocalErrorCode c \<Rightarrow> toString_Local lval c
      | OfTransportErrorCode c \<Rightarrow> toString_Transport tval alertToString c)"

text \<open>
  \<open>toString(pair<QuicErrorCode, Optional<StringPiece>>)\<close>. In the application arm the
  argument of \<open>toString\<close> is an integer; the only overload it converts to is
  \<open>toString(QuicErrorCode)\<close>, through the union's constructor from an application code.
\<close>

definition toString_pair ::
  "'p word \<Rightarrow> (LocalErrorName \<Rightarrow> 'l word) \<Rightarrow> (TransportErrorName \<Rightarrow> 'a word)
     \<Rightarrow> ('a word \<Rightarrow> string)
     \<Rightarrow> ('p::len word, 'l::len word, 'a::len word) QuicErrorCode \<times> string option
     \<Rightarrow> string logged" where
  "toString_pair no_error lval tval alertToString error =
     (let (err, log) =
        (case fst error of
           OfApplicationErrorCode c \<Rightarrow>
             (let (s, w) = toString_QuicErrorCode no_error lval tval alertToString
                             (OfApplicationErrorCode c)
              in (''ApplicationError: '' @ s @ '', '', w))
         | OfLocalErrorCode c \<Rightarrow>
             (let (s, w) = toString_Local lval c in (''LocalError: '' @ s @ '', '', w))
         | OfTransportErrorCode c \<Rightarrow>
             (let (s, w) = toString_Transport tval alertToString c
              in (''TransportError: '' @ s @ '', '', w)))
      in case snd error of
           Some text \<Rightarrow> (err @ text, log)
         | None \<Rightarrow> (err, log))"

section \<open>Exception variants\<close>

text \<open>
  Modelled from the spec: the three exception classes are declared in
  \<open>quic/QuicException.h\<close>, which is not among the sources. Each derives from
  \<open>std::runtime_error\<close> and has the members its constructors initialise; \<open>frameType_\<close> is
  the "optional offending frame-type identifier (absent when the violation is not
  attributable to a single frame)", empty unless a constructor initialises it.

  \<open>std::runtime_error\<close> keeps the string it is constructed from. Its only accessor,
  \<open>what()\<close>, returns a NUL-terminated \<open>const char*\<close>: the text read through it is the
  stored string up to its first NUL character.
\<close>

record runtime_error =
  stored :: string

definition c_str :: "string \<Rightarrow> string" where
  "c_str s = takeWhile (\<lambda>c. c \<noteq> CHR 0x00) s"

definition what :: "'z runtime_error_scheme \<Rightarrow> string" where
  "what e = c_str (stored e)"

record ('c, 'f) QuicTransportException = runtime_error +
  errCode :: 'c
  frameType :: "'f option"

record 'c QuicInternalException = runtime_error +
  errorCode :: 'c

record 'c QuicApplicationException = runtime_error +
  application_errorCode :: 'c

text \<open>
  The constructors. Those taking \<open>const std::string&\<close> or \<open>folly::StringPiece\<close> (copied
  by \<open>folly::to<std::string>\<close>) hand \<open>std::runtime_error\<close> a string of any characters,
  NUL included. Those taking \<open>const char*\<close> hand it a C string, which has no NUL before
  its end: they are the same functions on the strings without a NUL.
\<close>

definition QuicTransportException ::
  "string \<Rightarrow> 'a TransportErrorCode \<Rightarrow> ('a::len word, 'f) QuicTransportException" where
  "QuicTransportException msg errCode' =
     \<lparr>stored = msg, errCode = errCode', frameType = None\<rparr>"

definition QuicTransportException_frame ::
  "string \<Rightarrow> 'a TransportErrorCode \<Rightarrow> 'f \<Rightarrow> ('a::len word, 'f) QuicTransportException" where
  "QuicTransportException_frame msg errCode' frameType' =
     \<lparr>stored = msg, errCode = errCode', frameType = Some frameType'\<rparr>"

definition QuicInternalException ::
  "string \<Rightarrow> 'l LocalErrorCode \<Rightarrow> ('l::len word) QuicInternalException" where
  "QuicInternalException msg errCode' = \<lparr>stored = msg, errorCode = errCode'\<rparr>"

definition QuicApplicationException ::
  "string \<Rightarrow> 'p ApplicationErrorCode \<Rightarrow> ('p::len word) QuicApplicationException" where
  "QuicApplicationException msg errorCode' = \<lparr>stored = msg, application_errorCode = errorCode'\<rparr>"

section \<open>A table of enumerator values\<close>

text \<open>
  Modelled from the spec: the enumerator values are declared in \<open>quic/QuicConstants.h\<close>,
  which is not among the sources. The spec asks for "total, closed sets of small
  integers", fixed at build time, the transport ones matching "the governing wire
  specification": the transport table below carries the codes of the QUIC transport
  error registry, whose crypto range is \<open>0x100\<close> to \<open>0x1ff\<close>, over 64-bit words; the local
  table numbers the local codes from \<open>0x40000000\<close> over 32-bit words. The general theorems
  hold for every table and every width; these two tables instantiate them.
\<close>

primrec transport_values :: "TransportErrorName \<Rightarrow> 64 word" where
  "transport_values Transport_NO_ERROR = 0x0"
| "transport_values Transport_INTERNAL_ERROR = 0x1"
| "transport_values Transport_SERVER_BUSY = 0x2"
| "transport_values Transport_FLOW_CONTROL_ERROR = 0x3"
| "transport_values Transport_STREAM_LIMIT_ERROR = 0x4"
| "transport_values Transport_STREAM_STATE_ERROR = 0x5"
| "transport_values Transport_FINAL_SIZE_ERROR = 0x6"
| "transport_values Transport_FRAME_ENCODING_ERROR = 0x7"
| "transport_values Transport_TRANSPORT_PARAMETER_ERROR = 0x8"
| "transport_values Transport_PROTOCOL_VIOLATION = 0xA"
| "transport_values Transport_INVALID_TOKEN = 0xB"
| "transport_values Transport_INVALID_MIGRATION = 0xC"
| "transport_values Transport_CRYPTO_ERROR = 0x100"
| "transport_values Transport_CRYPTO_ERROR_MAX = 0x1FF"

primrec local_values :: "LocalErrorName \<Rightarrow> 32 word" where
  "local_values Local_NO_ERROR = 0x0"
| "local_values Local_CONNECT_FAILED = 0x40000000"
| "local_values Local_CODEC_ERROR = 0x40000001"
| "local_values Local_STREAM_CLOSED = 0x40000002"
| "local_values Local_STREAM_NOT_EXISTS = 0x40000003"
| "local_values Local_CREATING_EXISTING_STREAM = 0x40000004"
| "local_values Local_SHUTTING_DOWN = 0x40000005"
| "local_values Local_RESET_CRYPTO_STREAM = 0x40000006"
| "local_values Local_CWND_OVERFLOW = 0x40000007"
| "local_values Local_INFLIGHT_BYTES_OVERFLOW = 0x40000008"
| "local_values Local_LOST_BYTES_OVERFLOW = 0x40000009"
| "local_values Local_NEW_VERSION_NEGOTIATED = 0x4000000A"
| "local_values Local_INVALID_WRITE_CALLBACK = 0x4000000B"
| "local_values Local_TLS_HANDSHAKE_FAILED = 0x4000000C"
| "local_values Local_APP_ERROR = 0x4000000D"
| "local_values Local_INTERNAL_ERROR = 0x4000000E"
| "local_values Local_TRANSPORT_ERROR = 0x4000000F"
| "local_values Local_INVALID_WRITE_DATA = 0x40000010"
| "local_values Local_INVALID_STATE_TRANSITION = 0x40000011"
| "local_values Local_CONNECTION_CLOSED = 0x40000012"
| "local_values Local_EARLY_DATA_REJECTED = 0x40000013"
| "local_values Local_CONNECTION_RESET = 0x40000014"
| "local_values Local_IDLE_TIMEOUT = 0x40000015"
| "local_values Local_PACKET_NUMBER_ENCODING = 0x40000016"
| "local_values Local_INVALID_OPERATION = 0x40000017"
| "local_values Local_STREAM_LIMIT_EXCEEDED = 0x40000018"
| "local_values Local_CONNECTION_ABANDONED = 0x40000019"
| "local_values Local_CALLBACK_ALREADY_INSTALLED = 0x4000001A"
| "local_values Local_KNOB_FRAME_UNSUPPORTED = 0x4000001B"

text \<open>
  The conditions a value table meets. No two labels of a switch carry the same value (the
  compiler rejects the switch otherwise):
\<close>

definition labels_distinct :: "('n \<Rightarrow> 'w word) \<Rightarrow> ('n \<times> 'r) list \<Rightarrow> bool" where
  "labels_distinct val cases = distinct (map (\<lambda>c. val (fst c)) cases)"

text \<open>
  The range from \<open>CRYPTO_ERROR\<close> to \<open>CRYPTO_ERROR_MAX\<close> is reserved: the enumerators that
  render as a literal have their values outside it.
\<close>

definition crypto_range_reserved :: "(TransportErrorName \<Rightarrow> 'a::len word) \<Rightarrow> bool" where
  "crypto_range_reserved tval =
     list_all (\<lambda>c. snd c = CryptoError
                  \<or> tval (fst c) < tval Transport_CRYPTO_ERROR
                  \<or> tval Transport_CRYPTO_ERROR_MAX < tval (fst c)) transport_cases"

section \<open>The switch and the tables\<close>

lemma switch_None_iff:
  "switch val cases code = None \<longleftrightarrow> code \<notin> (\<lambda>c. val (fst c)) ` set cases"
  by (induction val cases code rule: switch.induct) (auto split: if_splits)

lemma switch_label:
  "labels_distinct val cases \<Longrightarrow> (n, r) \<in> set cases \<Longrightarrow> switch val cases (val n) = Some r"
proof (induction cases)
  case Nil
  then show ?case by simp
next
  case (Cons c cases)
  obtain m q where c: "c = (m, q)" by (cases c)
  show ?case
  proof (cases "(n, r) = c")
    case True
    then show ?thesis using c by simp
  next
    case False
    with Cons.prems have mem: "(n, r) \<in> set cases" by simp
    from Cons.prems have d: "labels_distinct val cases" and
      fresh: "val m \<notin> (\<lambda>c. val (fst c)) ` set cases"
      by (simp_all add: labels_distinct_def c)
    from mem fresh have "val n \<noteq> val m" by force
    with Cons.IH [OF d mem] show ?thesis by (simp add: c)
  qed
qed

lemma local_labels: "\<exists>s. (n, s) \<in> set local_cases"
  by (cases n) (simp_all add: local_cases_def)

lemma transport_labels: "\<exists>r. (n, r) \<in> set transport_cases"
  by (cases n) (simp_all add: transport_cases_def)

lemma local_label_values: "(\<lambda>c. lval (fst c)) ` set local_cases = range lval"
proof
  show "(\<lambda>c. lval (fst c)) ` set local_cases \<subseteq> range lval" by auto
  show "range lval \<subseteq> (\<lambda>c. lval (fst c)) ` set local_cases"
  proof
    fix v assume "v \<in> range lval"
    then obtain n where v: "v = lval n" by auto
    obtain s where "(n, s) \<in> set local_cases" using local_labels by blast
    then show "v \<in> (\<lambda>c. lval (fst c)) ` set local_cases" using v by force
  qed
qed

lemma transport_label_values: "(\<lambda>c. tval (fst c)) ` set transport_cases = range tval"
proof
  show "(\<lambda>c. tval (fst c)) ` set transport_cases \<subseteq> range tval" by auto
  show "range tval \<subseteq> (\<lambda>c. tval (fst c)) ` set transport_cases"
  proof
    fix v assume "v \<in> range tval"
    then obtain n where v: "v = tval n" by auto
    obtain r where "(n, r) \<in> set transport_cases" using transport_labels by blast
    then show "v \<in> (\<lambda>c. tval (fst c)) ` set transport_cases" using v by force
  qed
qed

lemma local_values_distinct: "labels_distinct local_values local_cases"
  by (simp add: labels_distinct_def local_cases_def)

lemma transport_values_distinct: "labels_distinct transport_values transport_cases"
  by (simp add: labels_distinct_def transport_cases_def)

lemma one_unnamed: "(1 :: 32 word) \<notin> range local_values"
proof
  assume "1 \<in> range local_values"
  then obtain n where "local_values n = 1" by auto
  then show False by (cases n) simp_all
qed

lemma switch_Some:
  "switch val cases code = Some r \<Longrightarrow> \<exists>n. (n, r) \<in> set cases \<and> val n = code"
  by (induction val cases code rule: switch.induct) (auto split: if_splits)

lemma transport_unnamed:
  "v \<notin> range tval \<Longrightarrow> switch tval transport_cases v = None"
  by (simp add: switch_None_iff transport_label_values)

lemma nine_unnamed: "(9 :: 64 word) \<notin> range transport_values"
proof
  assume "9 \<in> range transport_values"
  then obtain n where "transport_values n = 9" by auto
  then show False by (cases n) simp_all
qed

lemma transport_values_max: "transport_values Transport_CRYPTO_ERROR_MAX = mask 9"
  by (simp add: mask_eq_decr_exp)

lemma reserved_arm:
  assumes reserved: "crypto_range_reserved tval"
    and mem: "(n, r) \<in> set transport_cases"
    and lo: "tval Transport_CRYPTO_ERROR \<le> tval n"
    and hi: "tval n \<le> tval Transport_CRYPTO_ERROR_MAX"
  shows "r = CryptoError"
proof -
  from reserved mem have "snd (n, r) = CryptoError
      \<or> tval (fst (n, r)) < tval Transport_CRYPTO_ERROR
      \<or> tval Transport_CRYPTO_ERROR_MAX < tval (fst (n, r))"
    unfolding crypto_range_reserved_def list_all_iff by blast
  with lo hi show ?thesis by auto
qed

lemma transport_values_reserved: "crypto_range_reserved transport_values"
  by (simp add: crypto_range_reserved_def transport_cases_def)

text \<open>
  The bit test of the fallback, \<open>(codeVal & MAX) == codeVal\<close>, against a boundary whose
  set bits are the low \<open>k\<close> ones: it holds exactly of the values up to the boundary.
\<close>

lemma and_mask_eq_iff_le:
  fixes w :: "'a::len word"
  shows "(w AND mask k = w) \<longleftrightarrow> w \<le> mask k"
proof -
  have "w \<le> mask k \<longleftrightarrow> uint w < 2 ^ min LENGTH('a) k"
    unfolding word_le_def uint_mask_eq by (simp add: mask_eq_exp_minus_1)
  also have "\<dots> \<longleftrightarrow> uint w < 2 ^ k"
  proof (cases "k \<le> LENGTH('a)")
    case True
    then show ?thesis by (simp add: min_def)
  next
    case False
    then have "(2::int) ^ LENGTH('a) \<le> 2 ^ k" by (simp add: power_increasing)
    moreover have "uint w < 2 ^ LENGTH('a)" by (rule uint_lt2p)
    ultimately have "uint w < 2 ^ k" by linarith
    moreover have "min LENGTH('a) k = LENGTH('a)" using False by simp
    ultimately show ?thesis by simp
  qed
  finally show ?thesis by (simp add: mask_eq_iff)
qed

text \<open>
  The fourteen enumerators name at most fourteen values. So whatever values the twelve
  ordinary enumerators have, with the boundaries \<open>0x100\<close> and \<open>0x1ff\<close> some code
  below the base is the value of no enumerator, and the renderer takes the crypto branch
  for it.
\<close>

lemma transport_named_card:
  fixes tval :: "TransportErrorName \<Rightarrow> 'w"
  shows "card (range tval) \<le> 14"
proof -
  have "range tval = (\<lambda>c. tval (fst c)) ` set transport_cases"
    by (simp add: transport_label_values)
  also have "card \<dots> \<le> card (set transport_cases)"
    by (rule card_image_le) simp
  also have "\<dots> \<le> length transport_cases" by (rule card_length)
  also have "\<dots> = 14" by (simp add: transport_cases_def)
  finally show ?thesis .
qed

lemma unnamed_below_base:
  fixes tval :: "TransportErrorName \<Rightarrow> 'a::len word"
  assumes base: "tval Transport_CRYPTO_ERROR = 0x100"
    and top: "tval Transport_CRYPTO_ERROR_MAX = 0x1FF"
    and width: "9 \<le> LENGTH('a)"
  shows "\<exists>v. v \<notin> range tval \<and> v < tval Transport_CRYPTO_ERROR
           \<and> toString_Transport tval alert v = (cryptoErrorToString tval alert v, [])"
proof -
  let ?S = "(of_nat ` {0..<15}) :: 'a word set"
  have big: "(512::nat) \<le> 2 ^ LENGTH('a)"
    using power_increasing [OF width, of "2::nat"] by simp
  have un: "unat (of_nat i :: 'a word) = i" if "i < 512" for i
    using that big by (simp add: unat_of_nat)
  have "inj_on (of_nat :: nat \<Rightarrow> 'a word) {0..<15}"
  proof (rule inj_onI)
    fix x y :: nat
    assume "x \<in> {0..<15}" "y \<in> {0..<15}" "(of_nat x :: 'a word) = of_nat y"
    then have "unat (of_nat x :: 'a word) = unat (of_nat y :: 'a word)" by simp
    with \<open>x \<in> {0..<15}\<close> \<open>y \<in> {0..<15}\<close> show "x = y" by (simp add: un)
  qed
  then have "card ?S = 15" by (simp add: card_image)
  with transport_named_card [of tval] have "\<not> ?S \<subseteq> range tval"
    using card_mono [of "range tval" ?S] by auto
  then obtain w where "w \<in> ?S" and "w \<notin> range tval" by blast
  then obtain i where i: "i < 15" and unnamed: "(of_nat i :: 'a word) \<notin> range tval"
    by auto
  let ?v = "of_nat i :: 'a word"
  have uv: "unat ?v = i" using i by (simp add: un)
  have ub: "unat (0x100 :: 'a word) = 256" using un [of 256] by simp
  have ut: "unat (0x1FF :: 'a word) = 511" using un [of 511] by simp
  have below: "?v < tval Transport_CRYPTO_ERROR"
    unfolding base word_less_nat_alt uv ub using i by simp
  have "?v \<le> tval Transport_CRYPTO_ERROR_MAX"
    unfolding top word_le_nat_alt uv ut using i by simp
  moreover have "tval Transport_CRYPTO_ERROR_MAX = mask 9"
    by (simp add: top mask_eq_decr_exp)
  ultimately have "?v AND tval Transport_CRYPTO_ERROR_MAX = ?v"
    by (simp only: and_mask_eq_iff_le)
  then have "toString_Transport tval alert ?v = (cryptoErrorToString tval alert ?v, [])"
    using transport_unnamed [OF unnamed] by (simp add: toString_Transport_def)
  with unnamed below show ?thesis by blast
qed

text \<open>A label's own value selects its arm.\<close>

lemma local_literal:
  "labels_distinct lval local_cases \<Longrightarrow> (n, s) \<in> set local_cases
     \<Longrightarrow> toString_Local lval (lval n) = (s, [])"
  by (simp add: toString_Local_def switch_label)

lemma transport_literal:
  "labels_distinct tval transport_cases \<Longrightarrow> (n, Literal s) \<in> set transport_cases
     \<Longrightarrow> toString_Transport tval alert (tval n) = (s, [])"
  by (simp add: toString_Transport_def switch_label)

lemma transport_marker:
  "labels_distinct tval transport_cases \<Longrightarrow> (n, CryptoError) \<in> set transport_cases
     \<Longrightarrow> toString_Transport tval alert (tval n)
           = (''Crypto error: '' @ alert (tval n - tval Transport_CRYPTO_ERROR), [])"
  by (simp add: toString_Transport_def switch_label cryptoErrorToString_def)

lemma local_literal_known: "(n, s) \<in> set local_cases \<Longrightarrow> s \<noteq> ''Unknown error''"
  by (auto simp: local_cases_def)

lemma transport_literal_known:
  "(n, Literal s) \<in> set transport_cases \<Longrightarrow> s \<noteq> ''Unknown error''"
  by (auto simp: transport_cases_def)

lemma transport_arms:
  "(\<exists>s. (n, Literal s) \<in> set transport_cases)
   \<or> (n, CryptoError) \<in> set transport_cases
      \<and> (n = Transport_CRYPTO_ERROR \<or> n = Transport_CRYPTO_ERROR_MAX)"
  by (cases n) (simp_all add: transport_cases_def)

text \<open>\<open>decimal\<close> unfolds by the size of its argument, and reads back as the number.\<close>

lemma decimal_digit: "n < 10 \<Longrightarrow> decimal n = [digit n]"
  by (simp add: decimal.simps)

lemma decimal_step: "10 \<le> n \<Longrightarrow> decimal n = decimal (n div 10) @ [digit (n mod 10)]"
  by (subst decimal.simps) simp

lemma decimal_42: "decimal 42 = ''42''"
  by (simp add: decimal_step decimal_digit digit_def)

lemma decimal_65535: "decimal 65535 = ''65535''"
  by (simp add: decimal_step decimal_digit digit_def)

lemma digit_value_digit: "d < 10 \<Longrightarrow> digit_value (digit d) = d"
proof -
  assume "d < 10"
  then have "d \<in> {0, 1, 2, 3, 4, 5, 6, 7, 8, 9}" by auto
  then show ?thesis by (auto simp: digit_def digit_value_def)
qed

lemma decimal_value: "fold (\<lambda>c a. 10 * a + digit_value c) (decimal n) 0 = n"
proof (induction n rule: decimal.induct)
  case (1 n)
  show ?case
  proof (cases "n < 10")
    case True
    then show ?thesis by (simp add: decimal_digit digit_value_digit)
  next
    case False
    then have "decimal n = decimal (n div 10) @ [digit (n mod 10)]"
      by (simp add: decimal_step)
    with 1 False show ?thesis by (simp add: digit_value_digit)
  qed
qed

text \<open>The three arms of the compound renderer.\<close>

lemma pair_Application:
  "toString_pair no_error lval tval alert (OfApplicationErrorCode c, reason)
     = (''ApplicationError: ''
          @ fst (toString_QuicErrorCode no_error lval tval alert (OfApplicationErrorCode c))
          @ '', '' @ (case reason of Some free_text \<Rightarrow> free_text | None \<Rightarrow> []),
        snd (toString_QuicErrorCode no_error lval tval alert (OfApplicationErrorCode c)))"
  by (simp add: toString_pair_def split: prod.splits option.splits)

lemma pair_Local:
  "toString_pair no_error lval tval alert (OfLocalErrorCode l, reason)
     = (''LocalError: '' @ fst (toString_Local lval l)
          @ '', '' @ (case reason of Some free_text \<Rightarrow> free_text | None \<Rightarrow> []),
        snd (toString_Local lval l))"
  by (simp add: toString_pair_def split: prod.splits option.splits)

lemma pair_Transport:
  "toString_pair no_error lval tval alert (OfTransportErrorCode t, reason)
     = (''TransportError: '' @ fst (toString_Transport tval alert t)
          @ '', '' @ (case reason of Some free_text \<Rightarrow> free_text | None \<Rightarrow> []),
        snd (toString_Transport tval alert t))"
  by (simp add: toString_pair_def split: prod.splits option.splits)

section \<open>Unrecognised local codes\<close>

text \<open>
  Claim C8. A local code that is the value of no enumerator renders as exactly
  "Unknown error" and logs exactly one warning. The renderer has no failing path: it
  returns a string and a log for every code.
\<close>

theorem local_unknown_code:
  assumes "code \<notin> range lval"
  shows "toString_Local lval code = (''Unknown error'', [unhandled])
         \<and> length (snd (toString_Local lval code)) = 1"
proof -
  from assms have "switch lval local_cases code = None"
    by (simp add: switch_None_iff local_label_values)
  then show ?thesis by (simp add: toString_Local_def)
qed

theorem local_unknown_code_witness:
  "(1 :: 32 word) \<notin> range local_values
   \<and> toString_Local local_values 1 = (''Unknown error'', [''toString has unhandled ErrorCode''])
   \<and> length (snd (toString_Local local_values (1 :: 32 word))) = 1"
  using local_unknown_code [OF one_unnamed] one_unnamed by (simp add: unhandled_def)

section \<open>The fallback of the transport renderer\<close>

text \<open>
  Claim C4. For a transport code \<open>v\<close> that is the value of no enumerator, the renderer
  takes the crypto branch if and only if \<open>(v AND CRYPTO_ERROR_MAX) = v\<close>; the boundary
  having its low bits set and no others, that is if and only if \<open>v\<close> is at most
  \<open>CRYPTO_ERROR_MAX\<close>, which includes the unnamed values strictly below \<open>CRYPTO_ERROR\<close>.
  In that branch the alert ordinal handed to the external renderer is
  \<open>v - CRYPTO_ERROR\<close> in the wrap-around arithmetic of the underlying type: below the base
  it is \<open>v + 2 ^ width - CRYPTO_ERROR\<close>. Otherwise the result is "Unknown error" with one
  warning.
\<close>

theorem transport_unnamed_dispatch:
  fixes v :: "'a::len word"
  assumes unnamed: "v \<notin> range tval"
    and pattern: "tval Transport_CRYPTO_ERROR_MAX = mask k"
  shows "(toString_Transport tval alert v = (cryptoErrorToString tval alert v, [])
            \<longleftrightarrow> v AND tval Transport_CRYPTO_ERROR_MAX = v)
       \<and> (v AND tval Transport_CRYPTO_ERROR_MAX = v \<longleftrightarrow> v \<le> tval Transport_CRYPTO_ERROR_MAX)
       \<and> (v < tval Transport_CRYPTO_ERROR
              \<and> tval Transport_CRYPTO_ERROR \<le> tval Transport_CRYPTO_ERROR_MAX
            \<longrightarrow> toString_Transport tval alert v = (cryptoErrorToString tval alert v, []))
       \<and> toString_Transport tval alert v =
           (if v \<le> tval Transport_CRYPTO_ERROR_MAX
            then (''Crypto error: '' @ alert (v - tval Transport_CRYPTO_ERROR), [])
            else (''Unknown error'', [unhandled]))
       \<and> unat (v - tval Transport_CRYPTO_ERROR) =
           (if unat (tval Transport_CRYPTO_ERROR) \<le> unat v
            then unat v - unat (tval Transport_CRYPTO_ERROR)
            else unat v + 2 ^ LENGTH('a) - unat (tval Transport_CRYPTO_ERROR))"
proof -
  let ?max = "tval Transport_CRYPTO_ERROR_MAX" and ?base = "tval Transport_CRYPTO_ERROR"
  have test: "v AND ?max = v \<longleftrightarrow> v \<le> ?max"
    by (simp add: pattern and_mask_eq_iff_le)
  have fell: "switch tval transport_cases v = None"
    using unnamed by (rule transport_unnamed)
  have run: "toString_Transport tval alert v =
      (if v AND ?max = v then (cryptoErrorToString tval alert v, [])
       else (''Unknown error'', [unhandled]))"
    by (simp add: toString_Transport_def fell)
  have crypto: "cryptoErrorToString tval alert v = ''Crypto error: '' @ alert (v - ?base)"
    by (simp add: cryptoErrorToString_def)
  have taken: "toString_Transport tval alert v = (cryptoErrorToString tval alert v, [])
      \<longleftrightarrow> v AND ?max = v"
    by (simp add: run)
  have below: "toString_Transport tval alert v = (cryptoErrorToString tval alert v, [])"
    if "v < ?base" "?base \<le> ?max"
  proof -
    from that have "v \<le> ?max" by simp
    then show ?thesis using taken test by simp
  qed
  have result: "toString_Transport tval alert v =
      (if v \<le> ?max then (''Crypto error: '' @ alert (v - ?base), [])
       else (''Unknown error'', [unhandled]))"
    by (simp add: run test crypto)
  have wrap: "unat (v - ?base) =
      (if unat ?base \<le> unat v then unat v - unat ?base
       else unat v + 2 ^ LENGTH('a) - unat ?base)"
    by (simp add: unat_sub_if_size word_size)
  from taken test below result wrap show ?thesis by blast
qed


theorem transport_unnamed_dispatch_witness:
  "\<forall>alert. (9 :: 64 word) \<notin> range transport_values
     \<and> transport_values Transport_CRYPTO_ERROR_MAX = mask 9
     \<and> 9 AND transport_values Transport_CRYPTO_ERROR_MAX = 9
     \<and> 9 < transport_values Transport_CRYPTO_ERROR
     \<and> transport_values Transport_CRYPTO_ERROR \<le> transport_values Transport_CRYPTO_ERROR_MAX
     \<and> toString_Transport transport_values alert 9
         = (''Crypto error: '' @ alert (9 - 0x100), [])
     \<and> unat (9 - transport_values Transport_CRYPTO_ERROR) = 9 + 2 ^ 64 - 256"
  using transport_unnamed_dispatch [OF nine_unnamed transport_values_max]
    nine_unnamed transport_values_max
  by (simp add: cryptoErrorToString_def)

text \<open>
  Claim C2. For an alert ordinal \<open>A\<close> with \<open>CRYPTO_ERROR + A\<close> not exceeding
  \<open>CRYPTO_ERROR_MAX\<close>, the transport code \<open>CRYPTO_ERROR + A\<close> renders as "Crypto error: "
  followed by the external renderer's text for \<open>A\<close>, and subtracting the base from the
  encoded value gives \<open>A\<close> back. The table is one whose literal enumerators lie outside
  the crypto range and whose upper boundary has its low bits set and no others.
\<close>

theorem crypto_round_trip:
  fixes A :: "'a::len word"
  assumes reserved: "crypto_range_reserved tval"
    and pattern: "tval Transport_CRYPTO_ERROR_MAX = mask k"
    and fits: "unat (tval Transport_CRYPTO_ERROR) + unat A
                 \<le> unat (tval Transport_CRYPTO_ERROR_MAX)"
  shows "toString_Transport tval alert (tval Transport_CRYPTO_ERROR + A)
           = (''Crypto error: '' @ alert A, [])
       \<and> (tval Transport_CRYPTO_ERROR + A) - tval Transport_CRYPTO_ERROR = A"
proof -
  let ?max = "tval Transport_CRYPTO_ERROR_MAX" and ?base = "tval Transport_CRYPTO_ERROR"
  let ?v = "?base + A"
  have "unat ?max < 2 ^ LENGTH('a)" by (rule unsigned_less)
  with fits have "unat ?base + unat A < 2 ^ LENGTH('a)" by linarith
  then have sum: "unat ?v = unat ?base + unat A"
    by (rule unat_add_lem [THEN iffD1])
  then have lo: "?base \<le> ?v" and hi: "?v \<le> ?max"
    using fits by (simp_all add: word_le_nat_alt)
  have recovered: "?v - ?base = A" by simp
  have crypto: "cryptoErrorToString tval alert ?v = ''Crypto error: '' @ alert A"
    by (simp add: cryptoErrorToString_def)
  have "toString_Transport tval alert ?v = (cryptoErrorToString tval alert ?v, [])"
  proof (cases "switch tval transport_cases ?v")
    case None
    from hi have "?v AND ?max = ?v" by (simp add: pattern and_mask_eq_iff_le)
    with None show ?thesis by (simp add: toString_Transport_def)
  next
    case (Some r)
    then obtain n where "(n, r) \<in> set transport_cases" and "tval n = ?v"
      using switch_Some by fastforce
    with reserved lo hi have "r = CryptoError" by (simp add: reserved_arm)
    with Some show ?thesis by (simp add: toString_Transport_def)
  qed
  with crypto recovered show ?thesis by simp
qed

theorem crypto_round_trip_witness:
  "\<forall>alert. crypto_range_reserved transport_values
     \<and> unat (transport_values Transport_CRYPTO_ERROR) + unat (0x2A :: 64 word)
          \<le> unat (transport_values Transport_CRYPTO_ERROR_MAX)
     \<and> toString_Transport transport_values alert 0x12A = (''Crypto error: '' @ alert 0x2A, [])
     \<and> (0x12A :: 64 word) - transport_values Transport_CRYPTO_ERROR = 0x2A"
proof -
  have fits: "unat (transport_values Transport_CRYPTO_ERROR) + unat (0x2A :: 64 word)
      \<le> unat (transport_values Transport_CRYPTO_ERROR_MAX)"
    by simp
  show ?thesis
    using crypto_round_trip [OF transport_values_reserved transport_values_max fits]
      transport_values_reserved fits
    by simp
qed

text \<open>
  Claim C1. The claim has the fallback taken exactly for the codes from \<open>CRYPTO_ERROR\<close> to
  \<open>CRYPTO_ERROR_MAX\<close>. The code 9 is the value of no enumerator and lies below
  \<open>CRYPTO_ERROR\<close>, and the renderer still takes the crypto branch for it, handing the
  external renderer the wrapped difference \<open>9 - 0x100\<close>.
\<close>

theorem crypto_fallback_below_range:
  "(9 :: 64 word) \<notin> range transport_values
   \<and> \<not> (transport_values Transport_CRYPTO_ERROR \<le> 9
          \<and> 9 \<le> transport_values Transport_CRYPTO_ERROR_MAX)
   \<and> toString_Transport transport_values alert 9
       = (cryptoErrorToString transport_values alert 9, [])
   \<and> cryptoErrorToString transport_values alert 9
       = ''Crypto error: '' @ alert (9 - 0x100)"
  using nine_unnamed
  by (simp add: toString_Transport_def transport_cases_def cryptoErrorToString_def)

text \<open>
  Claim C3. The claim has every unnamed code outside the crypto range render as
  "Unknown error" with one warning. For the unnamed code 9, below the range, the
  renderer returns a crypto text instead and logs nothing.
\<close>

theorem unknown_below_range_not_reported:
  "(9 :: 64 word) \<notin> range transport_values
   \<and> (9 :: 64 word) < transport_values Transport_CRYPTO_ERROR
   \<and> fst (toString_Transport transport_values alert 9) \<noteq> ''Unknown error''
   \<and> snd (toString_Transport transport_values alert 9) = []"
  using nine_unnamed
  by (simp add: toString_Transport_def transport_cases_def cryptoErrorToString_def)

section \<open>Named codes\<close>

text \<open>
  Claim C7, as amended. For every table with distinct labels, each local enumerator
  and each transport enumerator other than the two boundary markers renders as the
  literal listed below and logs nothing, and the application "no error" sentinel renders
  as "No Error". The markers \<open>CRYPTO_ERROR\<close> and \<open>CRYPTO_ERROR_MAX\<close> render as
  "Crypto error: " followed by the external renderer's text for their value minus the
  \<open>CRYPTO_ERROR\<close> base. No enumerator renders as "Unknown error".
\<close>

theorem named_codes_render:
  assumes local: "labels_distinct lval local_cases"
    and transport: "labels_distinct tval transport_cases"
  shows
  "toString_Local lval (lval Local_NO_ERROR) = (''No Error'', [])
   \<and> toString_Local lval (lval Local_CONNECT_FAILED) = (''Connect failed'', [])
   \<and> toString_Local lval (lval Local_CODEC_ERROR) = (''Codec Error'', [])
   \<and> toString_Local lval (lval Local_STREAM_CLOSED) = (''Stream is closed'', [])
   \<and> toString_Local lval (lval Local_STREAM_NOT_EXISTS) = (''Stream does not exist'', [])
   \<and> toString_Local lval (lval Local_CREATING_EXISTING_STREAM) = (''Creating an existing stream'', [])
   \<and> toString_Local lval (lval Local_SHUTTING_DOWN) = (''Shutting down'', [])
   \<and> toString_Local lval (lval Local_RESET_CRYPTO_STREAM) = (''Reset the crypto stream'', [])
   \<and> toString_Local lval (lval Local_CWND_OVERFLOW) = (''CWND overflow'', [])
   \<and> toString_Local lval (lval Local_INFLIGHT_BYTES_OVERFLOW) = (''Inflight bytes overflow'', [])
   \<and> toString_Local lval (lval Local_LOST_BYTES_OVERFLOW) = (''Lost bytes overflow'', [])
   \<and> toString_Local lval (lval Local_NEW_VERSION_NEGOTIATED) = (''New version negotiatied'', [])
   \<and> toString_Local lval (lval Local_INVALID_WRITE_CALLBACK) = (''Invalid write callback'', [])
   \<and> toString_Local lval (lval Local_CALLBACK_ALREADY_INSTALLED) = (''Callback already installed'', [])
   \<and> toString_Local lval (lval Local_TLS_HANDSHAKE_FAILED) = (''TLS handshake failed'', [])
   \<and> toString_Local lval (lval Local_APP_ERROR) = (''App error'', [])
   \<and> toString_Local lval (lval Local_INTERNAL_ERROR) = (''Internal error'', [])
   \<and> toString_Local lval (lval Local_TRANSPORT_ERROR) = (''Transport error'', [])
   \<and> toString_Local lval (lval Local_INVALID_WRITE_DATA) = (''Invalid write data'', [])
   \<and> toString_Local lval (lval Local_INVALID_STATE_TRANSITION) = (''Invalid state transition'', [])
   \<and> toString_Local lval (lval Local_CONNECTION_CLOSED) = (''Connection closed'', [])
   \<and> toString_Local lval (lval Local_EARLY_DATA_REJECTED) = (''Early data rejected'', [])
   \<and> toString_Local lval (lval Local_CONNECTION_RESET) = (''Connection reset'', [])
   \<and> toString_Local lval (lval Local_IDLE_TIMEOUT) = (''Idle timeout'', [])
   \<and> toString_Local lval (lval Local_PACKET_NUMBER_ENCODING) = (''Packet number encoding'', [])
   \<and> toString_Local lval (lval Local_INVALID_OPERATION) = (''Invalid operation'', [])
   \<and> toString_Local lval (lval Local_STREAM_LIMIT_EXCEEDED) = (''Stream limit exceeded'', [])
   \<and> toString_Local lval (lval Local_CONNECTION_ABANDONED) = (''Connection abandoned'', [])
   \<and> toString_Local lval (lval Local_KNOB_FRAME_UNSUPPORTED) = (''Knob Frame Not Supported'', [])
   \<and> toString_Transport tval alert (tval Transport_NO_ERROR) = (''No Error'', [])
   \<and> toString_Transport tval alert (tval Transport_INTERNAL_ERROR) = (''Internal Error'', [])
   \<and> toString_Transport tval alert (tval Transport_FLOW_CONTROL_ERROR) = (''Flow control error'', [])
   \<and> toString_Transport tval alert (tval Transport_STREAM_LIMIT_ERROR) = (''Stream limit error'', [])
   \<and> toString_Transport tval alert (tval Transport_STREAM_STATE_ERROR) = (''Stream State error'', [])
   \<and> toString_Transport tval alert (tval Transport_FINAL_SIZE_ERROR) = (''Final offset error'', [])
   \<and> toString_Transport tval alert (tval Transport_FRAME_ENCODING_ERROR) = (''Frame format error'', [])
   \<and> toString_Transport tval alert (tval Transport_TRANSPORT_PARAMETER_ERROR) = (''Transport parameter error'', [])
   \<and> toString_Transport tval alert (tval Transport_PROTOCOL_VIOLATION) = (''Protocol violation'', [])
   \<and> toString_Transport tval alert (tval Transport_INVALID_MIGRATION) = (''Invalid migration'', [])
   \<and> toString_Transport tval alert (tval Transport_SERVER_BUSY) = (''Server busy'', [])
   \<and> toString_Transport tval alert (tval Transport_INVALID_TOKEN) = (''Invalid token'', [])
   \<and> toString_Transport tval alert (tval Transport_CRYPTO_ERROR)
       = (''Crypto error: '' @ alert 0, [])
   \<and> toString_Transport tval alert (tval Transport_CRYPTO_ERROR_MAX)
       = (''Crypto error: ''
            @ alert (tval Transport_CRYPTO_ERROR_MAX - tval Transport_CRYPTO_ERROR), [])
   \<and> toString_QuicErrorCode no_error lval tval alert (OfApplicationErrorCode no_error)
       = (''No Error'', [])
   \<and> fst (toString_Local lval (lval n)) \<noteq> ''Unknown error''
   \<and> snd (toString_Local lval (lval n)) = []
   \<and> fst (toString_Transport tval alert (tval m)) \<noteq> ''Unknown error''
   \<and> snd (toString_Transport tval alert (tval m)) = []"
proof -
  have L: "toString_Local lval (lval k) = (s, [])" if "(k, s) \<in> set local_cases" for k s
    using local that by (rule local_literal)
  have T: "toString_Transport tval alert (tval k) = (s, [])"
    if "(k, Literal s) \<in> set transport_cases" for k s
    using transport that by (rule transport_literal)
  have M: "toString_Transport tval alert (tval k)
      = (''Crypto error: '' @ alert (tval k - tval Transport_CRYPTO_ERROR), [])"
    if "(k, CryptoError) \<in> set transport_cases" for k
    using transport that by (rule transport_marker)
  have base: "toString_Transport tval alert (tval Transport_CRYPTO_ERROR)
      = (''Crypto error: '' @ alert 0, [])"
    using M [of Transport_CRYPTO_ERROR] by (simp add: transport_cases_def)
  have top: "toString_Transport tval alert (tval Transport_CRYPTO_ERROR_MAX)
      = (''Crypto error: ''
           @ alert (tval Transport_CRYPTO_ERROR_MAX - tval Transport_CRYPTO_ERROR), [])"
    by (rule M) (simp add: transport_cases_def)
  have sentinel: "toString_QuicErrorCode no_error lval tval alert
      (OfApplicationErrorCode no_error) = (''No Error'', [])"
    by (simp add: toString_QuicErrorCode_def)
  obtain s where s: "(n, s) \<in> set local_cases" using local_labels by blast
  from L [OF s] local_literal_known [OF s]
  have known_local: "fst (toString_Local lval (lval n)) \<noteq> ''Unknown error''"
    and quiet_local: "snd (toString_Local lval (lval n)) = []"
    by simp_all
  consider (literal) r where "(m, Literal r) \<in> set transport_cases"
    | (marker) "(m, CryptoError) \<in> set transport_cases"
    using transport_arms [of m] by blast
  then have "fst (toString_Transport tval alert (tval m)) \<noteq> ''Unknown error''
      \<and> snd (toString_Transport tval alert (tval m)) = []"
  proof cases
    case literal
    from T [OF literal] transport_literal_known [OF literal] show ?thesis by simp
  next
    case marker
    from M [OF marker] show ?thesis by simp
  qed
  then have known_transport: "fst (toString_Transport tval alert (tval m)) \<noteq> ''Unknown error''"
    and quiet_transport: "snd (toString_Transport tval alert (tval m)) = []"
    by simp_all
  show ?thesis
    by (intro conjI;
        (rule base | rule top | rule sentinel
         | rule known_local | rule quiet_local
         | rule known_transport | rule quiet_transport
         | rule L, simp add: local_cases_def
         | rule T, simp add: transport_cases_def))
qed

theorem named_codes_render_witness:
  "\<forall>alert. labels_distinct local_values local_cases
     \<and> labels_distinct transport_values transport_cases
     \<and> toString_Local local_values 0x40000002 = (''Stream is closed'', [])
     \<and> toString_Transport transport_values alert 0xA = (''Protocol violation'', [])
     \<and> toString_Local local_values 0x40000015 = (''Idle timeout'', [])
     \<and> toString_Transport transport_values alert 0x3 = (''Flow control error'', [])
     \<and> toString_Transport transport_values alert 0x100 = (''Crypto error: '' @ alert 0, [])
     \<and> toString_Transport transport_values alert 0x1FF = (''Crypto error: '' @ alert 0xFF, [])"
proof
  fix alert :: "64 word \<Rightarrow> string"
  show "labels_distinct local_values local_cases
     \<and> labels_distinct transport_values transport_cases
     \<and> toString_Local local_values 0x40000002 = (''Stream is closed'', [])
     \<and> toString_Transport transport_values alert 0xA = (''Protocol violation'', [])
     \<and> toString_Local local_values 0x40000015 = (''Idle timeout'', [])
     \<and> toString_Transport transport_values alert 0x3 = (''Flow control error'', [])
     \<and> toString_Transport transport_values alert 0x100 = (''Crypto error: '' @ alert 0, [])
     \<and> toString_Transport transport_values alert 0x1FF = (''Crypto error: '' @ alert 0xFF, [])"
    using named_codes_render [OF local_values_distinct transport_values_distinct,
        where n = Local_STREAM_CLOSED and m = Transport_PROTOCOL_VIOLATION
          and alert = alert and no_error = "0 :: 64 word"]
      local_values_distinct transport_values_distinct
    by simp
qed

text \<open>
  The claim as written fails at the named value \<open>CRYPTO_ERROR\<close>: its case returns
  \<open>cryptoErrorToString(code)\<close>, so its text is no literal of this renderer but follows
  the external renderer.
\<close>

theorem crypto_marker_not_literal:
  "toString_Transport transport_values (\<lambda>a. ''x'') (transport_values Transport_CRYPTO_ERROR)
     = (''Crypto error: x'', [])
   \<and> toString_Transport transport_values (\<lambda>a. ''y'') (transport_values Transport_CRYPTO_ERROR)
     = (''Crypto error: y'', [])
   \<and> \<not> (\<exists>s. \<forall>alert.
          toString_Transport transport_values alert (transport_values Transport_CRYPTO_ERROR)
            = (s, []))"
proof -
  have x: "toString_Transport transport_values (\<lambda>a. ''x'')
      (transport_values Transport_CRYPTO_ERROR) = (''Crypto error: x'', [])"
    by (simp add: toString_Transport_def transport_cases_def cryptoErrorToString_def)
  have y: "toString_Transport transport_values (\<lambda>a. ''y'')
      (transport_values Transport_CRYPTO_ERROR) = (''Crypto error: y'', [])"
    by (simp add: toString_Transport_def transport_cases_def cryptoErrorToString_def)
  have no_literal: "\<not> (\<exists>s. \<forall>alert.
      toString_Transport transport_values alert (transport_values Transport_CRYPTO_ERROR)
        = (s, []))"
  proof
    assume "\<exists>s. \<forall>alert.
      toString_Transport transport_values alert (transport_values Transport_CRYPTO_ERROR)
        = (s, [])"
    then obtain s where "toString_Transport transport_values (\<lambda>a. ''x'')
          (transport_values Transport_CRYPTO_ERROR) = (s, [])"
      and "toString_Transport transport_values (\<lambda>a. ''y'')
          (transport_values Transport_CRYPTO_ERROR) = (s, [])"
      by blast
    with x y have "''Crypto error: x'' = ''Crypto error: y''" by (metis fst_conv)
    then show False by simp
  qed
  from x y no_literal show ?thesis by blast
qed

section \<open>The unified and the compound renderer\<close>

text \<open>
  Claim C5. The unified renderer dispatches on the active variant: the application
  "no error" sentinel renders as "No Error", any other application code as its decimal
  form, a local code as the local renderer renders it and a transport code as the
  transport renderer renders it.
\<close>

theorem unified_code_dispatch:
  "toString_QuicErrorCode no_error lval tval alert (OfApplicationErrorCode no_error)
     = (''No Error'', [])
   \<and> (c \<noteq> no_error \<longrightarrow>
        toString_QuicErrorCode no_error lval tval alert (OfApplicationErrorCode c)
          = (decimal (unat c), []))
   \<and> toString_QuicErrorCode no_error lval tval alert (OfLocalErrorCode l)
       = toString_Local lval l
   \<and> toString_QuicErrorCode no_error lval tval alert (OfTransportErrorCode t)
       = toString_Transport tval alert t"
  by (simp add: toString_QuicErrorCode_def)

theorem unified_code_dispatch_witness:
  "\<forall>alert. (42 :: 64 word) \<noteq> 0
     \<and> toString_QuicErrorCode (0 :: 64 word) local_values transport_values alert
           (OfApplicationErrorCode 0) = (''No Error'', [])
     \<and> toString_QuicErrorCode (0 :: 64 word) local_values transport_values alert
           (OfApplicationErrorCode 42) = (''42'', [])
     \<and> toString_QuicErrorCode (0 :: 64 word) local_values transport_values alert
           (OfLocalErrorCode 0x40000015) = (''Idle timeout'', [])
     \<and> toString_QuicErrorCode (0 :: 64 word) local_values transport_values alert
           (OfTransportErrorCode 3) = (''Flow control error'', [])"
  using unified_code_dispatch [of "0 :: 64 word" local_values transport_values _ 42 "0x40000015" 3]
  by (simp add: decimal_42 toString_Local_def local_cases_def toString_Transport_def
      transport_cases_def)

text \<open>
  Claim C6. The compound renderer gives "ApplicationError: ", "LocalError: " or
  "TransportError: " by the active variant, then the rendered code, then ", ", then the
  free text when there is one. \<open>(Local(IDLE_TIMEOUT), none)\<close> renders as
  "LocalError: Idle timeout, " and \<open>(Transport(FLOW_CONTROL_ERROR), "window exceeded")\<close>
  as "TransportError: Flow control error, window exceeded".
\<close>

theorem pair_rendering:
  "toString_pair no_error lval tval alert (OfApplicationErrorCode c, reason)
     = (''ApplicationError: ''
          @ fst (toString_QuicErrorCode no_error lval tval alert (OfApplicationErrorCode c))
          @ '', '' @ (case reason of Some free_text \<Rightarrow> free_text | None \<Rightarrow> []),
        snd (toString_QuicErrorCode no_error lval tval alert (OfApplicationErrorCode c)))
   \<and> toString_pair no_error lval tval alert (OfLocalErrorCode l, reason)
     = (''LocalError: '' @ fst (toString_Local lval l)
          @ '', '' @ (case reason of Some free_text \<Rightarrow> free_text | None \<Rightarrow> []),
        snd (toString_Local lval l))
   \<and> toString_pair no_error lval tval alert (OfTransportErrorCode t, reason)
     = (''TransportError: '' @ fst (toString_Transport tval alert t)
          @ '', '' @ (case reason of Some free_text \<Rightarrow> free_text | None \<Rightarrow> []),
        snd (toString_Transport tval alert t))
   \<and> (labels_distinct lval local_cases \<longrightarrow>
        toString_pair no_error lval tval alert (OfLocalErrorCode (lval Local_IDLE_TIMEOUT), None)
          = (''LocalError: Idle timeout, '', []))
   \<and> (labels_distinct tval transport_cases \<longrightarrow>
        toString_pair no_error lval tval alert
            (OfTransportErrorCode (tval Transport_FLOW_CONTROL_ERROR), Some ''window exceeded'')
          = (''TransportError: Flow control error, window exceeded'', []))"
proof -
  have idle: "toString_pair no_error lval tval alert
        (OfLocalErrorCode (lval Local_IDLE_TIMEOUT), None)
      = (''LocalError: Idle timeout, '', [])"
    if "labels_distinct lval local_cases"
  proof -
    have "toString_Local lval (lval Local_IDLE_TIMEOUT) = (''Idle timeout'', [])"
      by (rule local_literal [OF that]) (simp add: local_cases_def)
    then show ?thesis by (simp add: pair_Local)
  qed
  have flow: "toString_pair no_error lval tval alert
        (OfTransportErrorCode (tval Transport_FLOW_CONTROL_ERROR), Some ''window exceeded'')
      = (''TransportError: Flow control error, window exceeded'', [])"
    if "labels_distinct tval transport_cases"
  proof -
    have "toString_Transport tval alert (tval Transport_FLOW_CONTROL_ERROR)
        = (''Flow control error'', [])"
      by (rule transport_literal [OF that]) (simp add: transport_cases_def)
    then show ?thesis by (simp add: pair_Transport)
  qed
  from pair_Application [of no_error lval tval alert c reason]
    pair_Local [of no_error lval tval alert l reason]
    pair_Transport [of no_error lval tval alert t reason] idle flow
  show ?thesis by blast
qed

theorem pair_rendering_witness:
  "\<forall>alert. labels_distinct local_values local_cases
     \<and> labels_distinct transport_values transport_cases
     \<and> toString_pair (0 :: 64 word) local_values transport_values alert
           (OfLocalErrorCode 0x40000015, None)
         = (''LocalError: Idle timeout, '', [])
     \<and> toString_pair (0 :: 64 word) local_values transport_values alert
           (OfTransportErrorCode 0x3, Some ''window exceeded'')
         = (''TransportError: Flow control error, window exceeded'', [])
     \<and> toString_pair (0 :: 64 word) local_values transport_values alert
           (OfApplicationErrorCode 42, Some ''bye'')
         = (''ApplicationError: 42, bye'', [])
     \<and> toString_pair (0 :: 64 word) local_values transport_values alert
           (OfApplicationErrorCode 0, None)
         = (''ApplicationError: No Error, '', [])"
proof
  fix alert :: "64 word \<Rightarrow> string"
  have app: "toString_QuicErrorCode (0 :: 64 word) local_values transport_values alert
        (OfApplicationErrorCode 42) = (''42'', [])"
      "toString_QuicErrorCode (0 :: 64 word) local_values transport_values alert
        (OfApplicationErrorCode 0) = (''No Error'', [])"
    by (simp_all add: toString_QuicErrorCode_def decimal_42)
  show "labels_distinct local_values local_cases
     \<and> labels_distinct transport_values transport_cases
     \<and> toString_pair (0 :: 64 word) local_values transport_values alert
           (OfLocalErrorCode 0x40000015, None)
         = (''LocalError: Idle timeout, '', [])
     \<and> toString_pair (0 :: 64 word) local_values transport_values alert
           (OfTransportErrorCode 0x3, Some ''window exceeded'')
         = (''TransportError: Flow control error, window exceeded'', [])
     \<and> toString_pair (0 :: 64 word) local_values transport_values alert
           (OfApplicationErrorCode 42, Some ''bye'')
         = (''ApplicationError: 42, bye'', [])
     \<and> toString_pair (0 :: 64 word) local_values transport_values alert
           (OfApplicationErrorCode 0, None)
         = (''ApplicationError: No Error, '', [])"
    using pair_rendering [where no_error = "0 :: 64 word" and lval = local_values
        and tval = transport_values and alert = alert and c = 42 and reason = "Some ''bye''"]
      pair_rendering [where no_error = "0 :: 64 word" and lval = local_values
        and tval = transport_values and alert = alert and c = 0 and reason = None]
      local_values_distinct transport_values_distinct app
    by simp
qed

section \<open>Exceptions and the tagged union\<close>

lemma c_str_id: "CHR 0x00 \<notin> set s \<Longrightarrow> c_str s = s"
  by (auto simp: c_str_def takeWhile_eq_all_conv)

text \<open>
  Claim C9, as amended. Each exception constructor stores its code unchanged, and its
  message reads back through \<open>what()\<close> up to the first NUL character: exactly as
  supplied when the message has no NUL character (as every \<open>const char*\<close> message has
  none). A transport exception built without a frame type has no frame type, and one
  built with a frame type has that one. The constructors are total and return nothing
  but the exception.
\<close>

theorem exception_constructors_preserve:
  fixes tcode :: "'a::len word" and frame anyFrame :: 'f
    and lcode :: "'l::len word" and acode :: "'p::len word"
  shows
  "(CHR 0x00 \<notin> set msg \<longrightarrow>
       what (QuicTransportException msg tcode :: ('a word, 'f) QuicTransportException) = msg
     \<and> what (QuicTransportException_frame msg tcode frame) = msg
     \<and> what (QuicInternalException msg lcode) = msg
     \<and> what (QuicApplicationException msg acode) = msg)
   \<and> what (QuicTransportException msg tcode :: ('a word, 'f) QuicTransportException)
       = takeWhile (\<lambda>c. c \<noteq> CHR 0x00) msg
   \<and> what (QuicTransportException_frame msg tcode frame) = takeWhile (\<lambda>c. c \<noteq> CHR 0x00) msg
   \<and> what (QuicInternalException msg lcode) = takeWhile (\<lambda>c. c \<noteq> CHR 0x00) msg
   \<and> what (QuicApplicationException msg acode) = takeWhile (\<lambda>c. c \<noteq> CHR 0x00) msg
   \<and> errCode (QuicTransportException msg tcode :: ('a word, 'f) QuicTransportException) = tcode
   \<and> frameType (QuicTransportException msg tcode :: ('a word, 'f) QuicTransportException) = None
   \<and> frameType (QuicTransportException msg tcode) \<noteq> Some anyFrame
   \<and> errCode (QuicTransportException_frame msg tcode frame) = tcode
   \<and> frameType (QuicTransportException_frame msg tcode frame) = Some frame
   \<and> errorCode (QuicInternalException msg lcode) = lcode
   \<and> application_errorCode (QuicApplicationException msg acode) = acode"
  by (auto simp: QuicTransportException_def QuicTransportException_frame_def
      QuicInternalException_def QuicApplicationException_def what_def c_str_def
      takeWhile_eq_all_conv)

theorem exception_constructors_preserve_witness:
  "CHR 0x00 \<notin> set ''stream closed''
   \<and> what (QuicTransportException ''stream closed'' (0x5 :: 64 word)
           :: (64 word, 8 word) QuicTransportException) = ''stream closed''
   \<and> what (QuicTransportException_frame ''stream closed'' (0x5 :: 64 word) (0x4 :: 8 word))
        = ''stream closed''
   \<and> what (QuicInternalException ''stream closed'' (0x40000002 :: 32 word)) = ''stream closed''
   \<and> what (QuicApplicationException ''stream closed'' (0x2A :: 64 word)) = ''stream closed''
   \<and> frameType (QuicTransportException ''stream closed'' (0x5 :: 64 word)
           :: (64 word, 8 word) QuicTransportException) = None
   \<and> frameType (QuicTransportException_frame ''stream closed'' (0x5 :: 64 word) (0x4 :: 8 word))
        = Some 0x4"
  using exception_constructors_preserve [where msg = "''stream closed''"
      and tcode = "0x5 :: 64 word" and frame = "0x4 :: 8 word"
      and lcode = "0x40000002 :: 32 word" and acode = "0x2A :: 64 word"
      and anyFrame = "0 :: 8 word"]
  by simp

text \<open>
  The claim as written fails for a message with a NUL character in it, which the
  \<open>std::string\<close> and \<open>StringPiece\<close> constructors accept: "a", NUL, "b" reads back as "a".
\<close>

theorem message_with_nul_truncated:
  "what (QuicInternalException [CHR ''a'', CHR 0x00, CHR ''b''] (0x40000002 :: 32 word)) = ''a''
   \<and> what (QuicInternalException [CHR ''a'', CHR 0x00, CHR ''b''] (0x40000002 :: 32 word))
       \<noteq> [CHR ''a'', CHR 0x00, CHR ''b'']"
  by (simp add: QuicInternalException_def what_def c_str_def)

text \<open>
  Claim C10. Of the three accessors of a unified code exactly one reports a value, the
  one of the active kind; each of the other two reports absence.
\<close>

theorem exactly_one_variant_active:
  "length (filter (\<lambda>present. present)
       [asApplicationErrorCode code \<noteq> None, asLocalErrorCode code \<noteq> None,
        asTransportErrorCode code \<noteq> None]) = 1
   \<and> (asApplicationErrorCode code \<noteq> None) = (type_of code = ApplicationErrorCode_E)
   \<and> (asLocalErrorCode code \<noteq> None) = (type_of code = LocalErrorCode_E)
   \<and> (asTransportErrorCode code \<noteq> None) = (type_of code = TransportErrorCode_E)
   \<and> (asApplicationErrorCode code = None) = (type_of code \<noteq> ApplicationErrorCode_E)
   \<and> (asLocalErrorCode code = None) = (type_of code \<noteq> LocalErrorCode_E)
   \<and> (asTransportErrorCode code = None) = (type_of code \<noteq> TransportErrorCode_E)"
  by (cases code) simp_all

end
